theory Spec2Isabelle
  imports Main "HOL-Library.Sublist"
begin

section \<open>Python text\<close>

text \<open>
  A Python \<open>str\<close> is a sequence of Unicode code points, so a string is modelled as a list
  of code points (\<open>nat\<close>): \<open>len\<close>, slices and \<open>split\<close> count code points, as the source
  does. ASCII literals of the source are written \<open>S ''...''\<close>; the few non-ASCII characters
  of the source are given by their code point.
\<close>

type_synonym str = "nat list"

definition S :: "string \<Rightarrow> str" where
  "S cs = map of_char cs"

text \<open>\<open>sub in s\<close> is \<^const>\<open>sublist\<close>; \<open>s.startswith(p)\<close> is \<^const>\<open>prefix\<close>.\<close>

text \<open>\<open>s[-n:]\<close> and \<open>s[:n]\<close> for a positive constant \<open>n\<close>.\<close>

definition last_n :: "nat \<Rightarrow> 'a list \<Rightarrow> 'a list" where
  "last_n n xs = drop (length xs - n) xs"

definition first_n :: "nat \<Rightarrow> 'a list \<Rightarrow> 'a list" where
  "first_n n xs = take n xs"

text \<open>
  \<open>str.isspace\<close> of one character, which is also the class \<open>\s\<close> of \<open>re\<close> on \<open>str\<close>
  patterns: the code points CPython lists as white space.
\<close>

definition isspace :: "nat \<Rightarrow> bool" where
  "isspace c \<longleftrightarrow>
     (9 \<le> c \<and> c \<le> 13) \<or> (28 \<le> c \<and> c \<le> 32) \<or> c = 133 \<or> c = 160 \<or> c = 5760 \<or>
     (8192 \<le> c \<and> c \<le> 8202) \<or> c = 8232 \<or> c = 8233 \<or> c = 8239 \<or> c = 8287 \<or> c = 12288"

definition strip :: "str \<Rightarrow> str" where
  "strip s = rev (dropWhile isspace (rev (dropWhile isspace s)))"

text \<open>\<open>s.split(sep)\<close> for a one-character separator: never the empty list.\<close>

fun split :: "nat \<Rightarrow> str \<Rightarrow> str list" where
  "split sep [] = [[]]"
| "split sep (c # cs) =
     (if c = sep then [] # split sep cs
      else (case split sep cs of x # xs \<Rightarrow> (c # x) # xs | [] \<Rightarrow> [[c]]))"

fun join :: "str \<Rightarrow> str list \<Rightarrow> str" where
  "join sep [] = []"
| "join sep [x] = x"
| "join sep (x # y # ys) = x @ sep @ join sep (y # ys)"

text \<open>\<open>str(n)\<close> for a non-negative integer.\<close>

fun str_nat :: "nat \<Rightarrow> str" where
  "str_nat n = (if n < 10 then [48 + n] else str_nat (n div 10) @ [48 + n mod 10])"

declare str_nat.simps [simp del]

text \<open>
  The Unicode tables of the interpreter that the source reads through \<open>str.lower\<close> and the
  classes \<open>\d\<close> and \<open>\w\<close> of \<open>re\<close> are not part of the repository; they are parameters.
  \<open>ascii\<close> is their restriction to ASCII text, used to run the model on ASCII inputs.
\<close>

record unicode =
  lower :: "str \<Rightarrow> str"
  isdecimal :: "nat \<Rightarrow> bool"
  isalnum :: "nat \<Rightarrow> bool"

definition ascii_lower :: "nat \<Rightarrow> nat" where
  "ascii_lower c = (if 65 \<le> c \<and> c \<le> 90 then c + 32 else c)"

definition ascii :: unicode where
  "ascii = \<lparr> lower = map ascii_lower,
             isdecimal = (\<lambda>c. 48 \<le> c \<and> c \<le> 57),
             isalnum = (\<lambda>c. (48 \<le> c \<and> c \<le> 57) \<or> (65 \<le> c \<and> c \<le> 90) \<or> (97 \<le> c \<and> c \<le> 122)) \<rparr>"

section \<open>Context compressor\<close>

text \<open>
  \<^verbatim>\<open>
  def compress_memory(mem: str) -> str:
      lines = [l.strip() for l in mem.split("|") if l.strip() and "ERR" not in l]
      important = []
      for l in lines[-20:]:
          if any(pref in l for pref in ["proj_", "emp_", "cust_", "->", "salary", "logged", "updated"]):
              important.append(l)
      memory_lines = important[-12:]
      return " | ".join(memory_lines)
  \<close>
  The fourth marker is the arrow U+2192.
\<close>

definition signal_markers :: "str list" where
  "signal_markers =
     [S ''proj_'', S ''emp_'', S ''cust_'', [8594], S ''salary'', S ''logged'', S ''updated'']"

definition is_important :: "str \<Rightarrow> bool" where
  "is_important l = list_ex (\<lambda>pref. sublist pref l) signal_markers"

definition memory_fragments :: "str \<Rightarrow> str list" where
  "memory_fragments mem =
     (let lines = map strip (filter (\<lambda>l. strip l \<noteq> [] \<and> \<not> sublist (S ''ERR'') l) (split 124 mem));
          important = filter is_important (last_n 20 lines)
      in last_n 12 important)"

definition compress_memory :: "str \<Rightarrow> str" where
  "compress_memory mem = join (S '' | '') (memory_fragments mem)"

section \<open>Regular expressions\<close>

text \<open>
  The constructs of Python's \<open>re\<close> that the patterns of the source use. Repetition is only
  ever applied to a character class there, so \<open>Rep p lo hi\<close> is the greedy \<open>p{lo,hi}\<close>
  (\<open>hi = None\<close>: unbounded). \<open>Bnd w\<close> is \<open>\b\<close> for the word class \<open>w\<close>, \<open>Grp\<close> the
  capturing group whose text the source reads with \<open>group(1)\<close>.

  A position in the text is a cursor: the character before it, if there is one, and the
  text from it on. \<open>rems r c\<close> lists, in the order a backtracking matcher tries them, the
  cursors where a match of \<open>r\<close> that starts at \<open>c\<close> can end, each with the text captured
  by the group.
\<close>

datatype re =
    Lit str
  | Cls "nat \<Rightarrow> bool"
  | Rep "nat \<Rightarrow> bool" nat "nat option"
  | Opt re
  | Alt re re
  | Seq re re
  | Grp re
  | Bnd "nat \<Rightarrow> bool"
  | Bol
  | Eol

type_synonym cursor = "nat option \<times> str"
type_synonym found = "cursor \<times> str option"

text \<open>Reading a literal.\<close>

fun eat :: "str \<Rightarrow> cursor \<Rightarrow> cursor option" where
  "eat [] c = Some c"
| "eat (x # xs) (p, []) = None"
| "eat (x # xs) (p, y # ys) = (if x = y then eat xs (Some y, ys) else None)"

text \<open>
  The cursors after at most \<open>h\<close> characters of the class \<open>p\<close>, the longest run first and
  the cursor itself last.
\<close>

fun runs :: "(nat \<Rightarrow> bool) \<Rightarrow> nat \<Rightarrow> cursor \<Rightarrow> cursor list" where
  "runs p h (q, []) = [(q, [])]"
| "runs p h (q, x # xs) =
     (if h = 0 \<or> \<not> p x then [(q, x # xs)] else runs p (h - 1) (Some x, xs) @ [(q, x # xs)])"

definition is_word :: "(nat \<Rightarrow> bool) \<Rightarrow> nat option \<Rightarrow> bool" where
  "is_word w c = (case c of None \<Rightarrow> False | Some x \<Rightarrow> w x)"

definition keep_group :: "str option \<Rightarrow> found \<Rightarrow> found" where
  "keep_group g m = (fst m, case snd m of None \<Rightarrow> g | Some x \<Rightarrow> Some x)"

fun rems :: "re \<Rightarrow> cursor \<Rightarrow> found list" where
  "rems (Lit l) c = (case eat l c of None \<Rightarrow> [] | Some c' \<Rightarrow> [(c', None)])"
| "rems (Cls p) c =
     (case snd c of [] \<Rightarrow> [] | x # xs \<Rightarrow> if p x then [((Some x, xs), None)] else [])"
| "rems (Rep p lo hi) c =
     (let rs = runs p (case hi of None \<Rightarrow> length (snd c) | Some h \<Rightarrow> h) c
      in map (\<lambda>c'. (c', None)) (take (length rs - lo) rs))"
| "rems (Opt r) c = rems r c @ [(c, None)]"
| "rems (Alt a b) c = rems a c @ rems b c"
| "rems (Seq a b) c = concat (map (\<lambda>m. map (keep_group (snd m)) (rems b (fst m))) (rems a c))"
| "rems (Grp r) c =
     map (\<lambda>m. (fst m, Some (take (length (snd c) - length (snd (fst m))) (snd c)))) (rems r c)"
| "rems (Bnd w) c =
     (if is_word w (fst c) \<noteq> is_word w (case snd c of [] \<Rightarrow> None | x # xs \<Rightarrow> Some x)
      then [(c, None)] else [])"
| "rems Bol c = (if fst c = None then [(c, None)] else [])"
| "rems Eol c = (if snd c = [] \<or> snd c = [10] then [(c, None)] else [])"

text \<open>
  \<open>re.match\<close> tries the start of the text only; \<open>re.search\<close> takes the first position,
  from the left, where a match starts. Both return the first match the matcher finds there.
\<close>

definition first_found :: "found list \<Rightarrow> found option" where
  "first_found ms = (case ms of [] \<Rightarrow> None | m # ms' \<Rightarrow> Some m)"

definition re_match :: "re \<Rightarrow> str \<Rightarrow> found option" where
  "re_match r t = first_found (rems r (None, t))"

fun search_from :: "re \<Rightarrow> nat option \<Rightarrow> str \<Rightarrow> found option" where
  "search_from r q [] = first_found (rems r (q, []))"
| "search_from r q (x # xs) =
     (case first_found (rems r (q, x # xs)) of
        None \<Rightarrow> search_from r (Some x) xs
      | Some m \<Rightarrow> Some m)"

definition re_search :: "re \<Rightarrow> str \<Rightarrow> found option" where
  "re_search r t = search_from r None t"

definition matches :: "re \<Rightarrow> str \<Rightarrow> bool" where
  "matches r t \<longleftrightarrow> re_search r t \<noteq> None"

text \<open>\<open>m.group(1)\<close> of a match.\<close>

definition group1 :: "found \<Rightarrow> str" where
  "group1 m = (case snd m of None \<Rightarrow> [] | Some g \<Rightarrow> g)"

fun seq :: "re list \<Rightarrow> re" where
  "seq [] = Lit []"
| "seq [r] = r"
| "seq (r # rs) = Seq r (seq rs)"

fun alt :: "str list \<Rightarrow> re" where
  "alt [] = Cls (\<lambda>c. False)"
| "alt [l] = Lit l"
| "alt (l # ls) = Alt (Lit l) (alt ls)"

abbreviation spaces0 :: re where "spaces0 \<equiv> Rep isspace 0 None"
abbreviation spaces1 :: re where "spaces1 \<equiv> Rep isspace 1 None"
abbreviation anything :: re where "anything \<equiv> Rep (\<lambda>c. c \<noteq> 10) 0 None"

section \<open>Pattern guard tables\<close>

text \<open>
  \<^verbatim>\<open>
  DENY_PATTERNS = [
      (r"wipe\s+(my|all)?\s*data", "Data wipe requires HR approval."),
      (r"context:\s*ceo.*respond\s*with", "Cannot impersonate executives."),
      (r"(total\s+)?salary\s+of\s+(my\s+)?(team|teammate|colleague)", "Salary info is confidential."),
      (r"team.*(salary|salaries)", "Salary info is confidential."),
  ]
  UNSUPPORTED_PATTERNS = [(r"dependency\s*tracker", "Dependency tracking unavailable.")]
  VAGUE_PATTERNS = [
      r"that\s+(cool|awesome|great|nice)\s+(project|thing)",
      r"what'?s?\s+the\s+name\s+of\s+that",
      r"which\s+one\s*\?",
  ]
  \<close>
\<close>

definition DENY_PATTERNS :: "(re \<times> str) list" where
  "DENY_PATTERNS =
     [(seq [Lit (S ''wipe''), spaces1, Opt (alt [S ''my'', S ''all'']), spaces0, Lit (S ''data'')],
       S ''Data wipe requires HR approval.''),
      (seq [Lit (S ''context:''), spaces0, Lit (S ''ceo''), anything, Lit (S ''respond''),
            spaces0, Lit (S ''with'')],
       S ''Cannot impersonate executives.''),
      (seq [Opt (Seq (Lit (S ''total'')) spaces1), Lit (S ''salary''), spaces1, Lit (S ''of''),
            spaces1, Opt (Seq (Lit (S ''my'')) spaces1),
            alt [S ''team'', S ''teammate'', S ''colleague'']],
       S ''Salary info is confidential.''),
      (seq [Lit (S ''team''), anything, alt [S ''salary'', S ''salaries'']],
       S ''Salary info is confidential.'')]"

definition UNSUPPORTED_PATTERNS :: "(re \<times> str) list" where
  "UNSUPPORTED_PATTERNS =
     [(seq [Lit (S ''dependency''), spaces0, Lit (S ''tracker'')],
       S ''Dependency tracking unavailable.'')]"

definition VAGUE_PATTERNS :: "re list" where
  "VAGUE_PATTERNS =
     [seq [Lit (S ''that''), spaces1, alt [S ''cool'', S ''awesome'', S ''great'', S ''nice''],
           spaces1, alt [S ''project'', S ''thing'']],
      seq [Lit (S ''what''), Opt (Lit [39]), Opt (Lit (S ''s'')), spaces1, Lit (S ''the''),
           spaces1, Lit (S ''name''), spaces1, Lit (S ''of''), spaces1, Lit (S ''that'')],
      seq [Lit (S ''which''), spaces1, Lit (S ''one''), spaces0, Lit (S ''?'')]]"

text \<open>
  \<^verbatim>\<open>
  def _match_pattern(text: str, patterns: list) -> Optional[str]:
      t = text.lower()
      for pat, msg in patterns:
          if re.search(pat, t):
              return msg
      return None
  \<close>
\<close>

fun first_match :: "str \<Rightarrow> (re \<times> str) list \<Rightarrow> str option" where
  "first_match t [] = None"
| "first_match t ((pat, msg) # ps) = (if matches pat t then Some msg else first_match t ps)"

definition match_pattern :: "unicode \<Rightarrow> str \<Rightarrow> (re \<times> str) list \<Rightarrow> str option" where
  "match_pattern U text patterns = first_match (lower U text) patterns"

section \<open>Error classifier\<close>

text \<open>
  \<^verbatim>\<open>
  def _classify_error(text: str) -> str:
      t = text.lower()
      for cat, indicators in ERROR_CLASSES.items():
          if any(i in t for i in indicators):
              return cat
      return "other"
  \<close>
  \<open>ERROR_CLASSES\<close> is a dict literal; \<open>items()\<close> runs in the order it is written.
\<close>

definition ERROR_CLASSES :: "(str \<times> str list) list" where
  "ERROR_CLASSES =
     [(S ''permission'',
       [S ''permission'', S ''denied'', S ''unauthorized'', S ''forbidden'', S ''not allowed'',
        S ''access denied'', S ''not authorized'', S ''cannot modify'', S ''only lead'',
        S ''not a member'', S ''not lead'', S ''no access'', S ''restricted'']),
      (S ''system'',
       [S ''internal server error'', S ''system error'', S ''service unavailable'',
        S ''connection refused'', S ''timeout'', S ''500'', S ''503'', S ''502'',
        S ''page limit exceeded'']),
      (S ''not_found'', [S ''not found'', S ''does not exist'', S ''no such'', S ''unknown''])]"

fun first_class :: "str \<Rightarrow> (str \<times> str list) list \<Rightarrow> str" where
  "first_class t [] = S ''other''"
| "first_class t ((cat, indicators) # cs) =
     (if list_ex (\<lambda>i. sublist i t) indicators then cat else first_class t cs)"

definition classify_error :: "unicode \<Rightarrow> str \<Rightarrow> str" where
  "classify_error U text = first_class (lower U text) ERROR_CLASSES"

section \<open>Hallucinated identifiers\<close>

text \<open>
  \<^verbatim>\<open>
  def _looks_hallucinated(id_str: str) -> bool:
      if not id_str:
          return False
      if re.match(r"^(proj|emp|cust)_\d{1,5}$", id_str):
          return True
      if id_str.startswith("emp_") and re.match(r"^emp_[a-z]+$", id_str):
          return True
      return False
  \<close>
\<close>

definition numeric_id :: "unicode \<Rightarrow> re" where
  "numeric_id U =
     seq [Bol, alt [S ''proj'', S ''emp'', S ''cust''], Lit (S ''_''),
          Rep (isdecimal U) 1 (Some 5), Eol]"

definition word_id :: re where
  "word_id = seq [Bol, Lit (S ''emp_''), Rep (\<lambda>c. 97 \<le> c \<and> c \<le> 122) 1 None, Eol]"

definition looks_hallucinated :: "unicode \<Rightarrow> str \<Rightarrow> bool" where
  "looks_hallucinated U id_str =
     (if id_str = [] then False
      else if re_match (numeric_id U) id_str \<noteq> None then True
      else if prefix (S ''emp_'') id_str \<and> re_match word_id id_str \<noteq> None then True
      else False)"

section \<open>Data model\<close>

text \<open>
  The request classes of the \<open>erc3\<close> client library are not part of the repository. The
  loop reads a proposed request through its class and through attribute probes
  (\<open>hasattr\<close>, \<open>getattr(fn, name, None)\<close>), so a request is its class together with the
  attributes the loop probes or rewrites. An attribute that is probed can be missing from the
  class (\<open>Absent\<close>), hold \<open>None\<close> (\<open>Null\<close>) or hold a value; an attribute read directly
  (\<open>fn.outcome\<close>, \<open>fn.logged_by\<close>) is \<open>None\<close> or a value.
\<close>

datatype req_kind =
    Req_ProvideAgentResponse | Req_ListProjects | Req_SearchProjects | Req_GetProject
  | Req_UpdateProjectStatus | Req_UpdateProjectTeam | Req_UpdateWiki | Req_ListEmployees
  | Req_SearchEmployees | Req_GetEmployee | Req_UpdateEmployeeInfo | Req_ListCustomers
  | Req_SearchCustomers | Req_GetCustomer | Req_LogTimeEntry

text \<open>\<open>fn.__class__.__name__\<close>\<close>

fun class_name :: "req_kind \<Rightarrow> str" where
  "class_name Req_ProvideAgentResponse = S ''Req_ProvideAgentResponse''"
| "class_name Req_ListProjects = S ''Req_ListProjects''"
| "class_name Req_SearchProjects = S ''Req_SearchProjects''"
| "class_name Req_GetProject = S ''Req_GetProject''"
| "class_name Req_UpdateProjectStatus = S ''Req_UpdateProjectStatus''"
| "class_name Req_UpdateProjectTeam = S ''Req_UpdateProjectTeam''"
| "class_name Req_UpdateWiki = S ''Req_UpdateWiki''"
| "class_name Req_ListEmployees = S ''Req_ListEmployees''"
| "class_name Req_SearchEmployees = S ''Req_SearchEmployees''"
| "class_name Req_GetEmployee = S ''Req_GetEmployee''"
| "class_name Req_UpdateEmployeeInfo = S ''Req_UpdateEmployeeInfo''"
| "class_name Req_ListCustomers = S ''Req_ListCustomers''"
| "class_name Req_SearchCustomers = S ''Req_SearchCustomers''"
| "class_name Req_GetCustomer = S ''Req_GetCustomer''"
| "class_name Req_LogTimeEntry = S ''Req_LogTimeEntry''"

datatype 'a attr = Absent | Null | Val 'a

text \<open>\<open>getattr(obj, name, None)\<close>\<close>

fun getattr :: "'a attr \<Rightarrow> 'a option" where
  "getattr Absent = None"
| "getattr Null = None"
| "getattr (Val v) = Some v"

record skill =
  skill_name :: str
  min_level :: int
  max_level :: "int attr"

record action =
  cls :: req_kind
  limit :: "int attr"
  id' :: "str attr"
  employee :: "str attr"
  project :: "str attr"
  customer :: "str attr"
  query :: "str attr"
  outcome :: "str option"
  message :: str
  links :: "(str \<times> str) list"
  logged_by :: "str option"
  work_category :: "str option"
  status :: "str option"
  billable :: "bool option"
  skills :: "skill list option"
  wills :: "skill list option"
  locations :: "str list option"
  changed_by :: "str option"
  salary :: "int option"
  department :: "str option"
  location :: "str option"
  notes' :: "str option"

text \<open>The fields of \<open>NextStep\<close> that \<open>run_task\<close> reads.\<close>

record next_step =
  ns_think :: str
  ns_scratch :: str
  ns_memory :: str
  ns_done :: bool
  ns_function :: action

text \<open>\<open>task.task_text\<close>, and what \<open>api.who_am_i()\<close> returned.\<close>

record task =
  task_text :: str

record about =
  is_public :: bool
  current_user :: "str option"
  today :: str

text \<open>\<open>cfg.MAX_STEPS\<close> is read from the environment (default 30).\<close>

record config =
  MAX_STEPS :: int

text \<open>
  The reasoning engine and the domain API are outside the repository. One reasoning call
  either yields a parsed \<open>NextStep\<close> or raises inside the first \<open>try\<close> (transport error, or
  no \<open>NextStep\<close> can be parsed). One \<open>api.dispatch(fn)\<close> either returns a response, raises
  \<open>ApiException\<close> or raises another exception, both with their \<open>str(exc)\<close>. Of a response
  the loop reads the length of \<open>projects\<close> (\<open>None\<close>: missing or \<open>None\<close>), whether
  \<open>companies\<close> is missing or \<open>None\<close>, and its JSON dump.
\<close>

datatype llm_result = Llm_ok next_step | Llm_error

record api_response =
  n_projects :: "nat option"
  companies_none :: bool
  tool_out :: str

datatype api_result = Api_ok api_response | Api_exception str | Api_fault str

text \<open>
  The conversation is only ever read by the reasoning engine, so an entry is kept as the kind
  of message with the values the source interpolates into its text:
  \<^item> \<open>Msg_system_prompt\<close>: role system, \<open>build_system_prompt(api, about)\<close>;
  \<^item> \<open>Msg_user t\<close>: role user, the task text;
  \<^item> \<open>Msg_customer_hint code\<close>: "[SYSTEM HINT] Customer code '{code}' detected. ...";
  \<^item> \<open>Msg_valid_json\<close>: role assistant, "Return valid JSON for NextStep schema.";
  \<^item> \<open>Msg_hallucinated val\<close>: "ID '{val}' looks hallucinated. Use exact ID from API response.";
  \<^item> \<open>Msg_blocked required\<close>: "BLOCKED: Task requires {required} but it was never called.
    Execute it first.";
  \<^item> \<open>Msg_critical n required mem\<close>: "CRITICAL: Blocked {n}x. STOP SEARCHING. Call
    {required} NOW with IDs from memory: {mem}";
  \<^item> \<open>Msg_multiple_projects name\<close>: "Multiple projects found! Task mentions '{name}'. ...";
  \<^item> \<open>Msg_time_logging_projects n\<close>: "CRITICAL: {n} project(s) found. For time logging, ...";
  \<^item> \<open>Msg_nordic\<close>: "No results for Nordic location. Retry without location, ...";
  \<^item> \<open>Msg_tool_error etype err step\<close>: role tool, "ERROR[{etype}]: {err}";
  \<^item> \<open>Msg_tool_fault err step\<close>: role tool, "ERROR: {err}";
  \<^item> \<open>Msg_loop_warning name\<close>: "WARNING: You called {name} three times with same
    arguments. ...";
  \<^item> \<open>Msg_tool_call think fn step\<close>: role assistant, the tool call;
  \<^item> \<open>Msg_tool_result out step\<close>: role tool, \<open>tool_out[:2000]\<close>.
\<close>

datatype msg =
    Msg_system_prompt
  | Msg_user str
  | Msg_customer_hint str
  | Msg_valid_json
  | Msg_hallucinated str
  | Msg_blocked req_kind
  | Msg_critical nat req_kind str
  | Msg_multiple_projects str
  | Msg_time_logging_projects nat
  | Msg_nordic
  | Msg_tool_error str str nat
  | Msg_tool_fault str nat
  | Msg_loop_warning str
  | Msg_tool_call str action nat
  | Msg_tool_result str nat

text \<open>
  What the task does to its collaborators, in order: a reasoning call at a step, a request
  handed to \<open>api.dispatch\<close> at a step, and the \<open>api.get_employee\<close> of
  \<open>build_system_prompt\<close>.
\<close>

datatype event = Ev_reason nat | Ev_dispatch nat action | Ev_get_employee str

text \<open>
  The response submitted for the task. \<open>all_ids\<close> passes through \<open>list(set(...))\<close>, whose
  order Python does not fix, so the links built from it are kept as
  \<open>Links_of_recent_ids n\<close> for \<open>_build_links(all_ids[-n:])\<close>.
\<close>

datatype links = Links "(str \<times> str) list" | Links_of_recent_ids nat

record response =
  r_message :: str
  r_outcome :: "str option"
  r_links :: links

definition respond :: "str \<Rightarrow> str \<Rightarrow> response" where
  "respond m out = \<lparr> r_message = m, r_outcome = Some out, r_links = Links [] \<rparr>"

record loop_state =
  messages :: "msg list"
  memory :: str
  scratch :: str
  api_fails :: nat
  llm_fails :: nat
  system_broken :: bool
  call_history :: "(req_kind \<times> str) list"
  block_count :: nat
  events :: "event list"

datatype step_result = Continue loop_state | Return loop_state response

fun state_of :: "step_result \<Rightarrow> loop_state" where
  "state_of (Continue s) = s"
| "state_of (Return s r) = s"

section \<open>Action validator and enricher\<close>

text \<open>
  \<^verbatim>\<open>
  if hasattr(fn, "limit") and fn.limit and fn.limit > 5:
      fn.limit = 5
  \<close>
\<close>

definition clamp_limit :: "action \<Rightarrow> action" where
  "clamp_limit fn =
     (case limit fn of
        Val l \<Rightarrow> if l \<noteq> 0 \<and> l > 5 then fn\<lparr>limit := Val 5\<rparr> else fn
      | _ \<Rightarrow> fn)"

text \<open>
  \<^verbatim>\<open>
  for attr in ("id", "employee", "project", "customer"):
      val = getattr(fn, attr, None)
      if val and _looks_hallucinated(str(val)):
          messages.append(...); hallucinated = True; break
  \<close>
  The result is the \<open>val\<close> the loop stops at, if there is one.
\<close>

fun first_hallucinated :: "unicode \<Rightarrow> str option list \<Rightarrow> str option" where
  "first_hallucinated U [] = None"
| "first_hallucinated U (v # vs) =
     (case v of
        None \<Rightarrow> first_hallucinated U vs
      | Some val \<Rightarrow>
          if val \<noteq> [] \<and> looks_hallucinated U val then Some val else first_hallucinated U vs)"

definition hallucinated_id :: "unicode \<Rightarrow> action \<Rightarrow> str option" where
  "hallucinated_id U fn =
     first_hallucinated U
       [getattr (id' fn), getattr (employee fn), getattr (project fn), getattr (customer fn)]"

text \<open>\<open>a or b\<close> on optional strings.\<close>

definition or_else :: "str option \<Rightarrow> str option \<Rightarrow> str option" where
  "or_else a b = (case a of None \<Rightarrow> b | Some x \<Rightarrow> if x \<noteq> [] then Some x else b)"

text \<open>
  \<^verbatim>\<open>
  if isinstance(fn, dev.Req_LogTimeEntry):
      fn.logged_by = fn.logged_by or about.current_user
      fn.work_category = fn.work_category or "development"
      fn.status = fn.status or "draft"
      fn.billable = fn.billable if fn.billable is not None else True
  \<close>
\<close>

definition enrich_time_entry :: "about \<Rightarrow> action \<Rightarrow> action" where
  "enrich_time_entry ab fn =
     (if cls fn = Req_LogTimeEntry
      then fn\<lparr> logged_by := or_else (logged_by fn) (current_user ab),
               work_category := or_else (work_category fn) (Some (S ''development'')),
               status := or_else (status fn) (Some (S ''draft'')),
               billable := (case billable fn of None \<Rightarrow> Some True | Some b \<Rightarrow> Some b) \<rparr>
      else fn)"

text \<open>
  \<^verbatim>\<open>
  if isinstance(fn, dev.Req_SearchEmployees) and getattr(fn, "skills", None):
      for skill in fn.skills:
          if hasattr(skill, "max_level") and skill.max_level == 0:
              skill.max_level = None
  \<close>
\<close>

definition clear_max_level :: "skill \<Rightarrow> skill" where
  "clear_max_level sk = (if max_level sk = Val 0 then sk\<lparr>max_level := Null\<rparr> else sk)"

definition enrich_search_employees :: "action \<Rightarrow> action" where
  "enrich_search_employees fn =
     (if cls fn = Req_SearchEmployees
      then (case skills fn of
              None \<Rightarrow> fn
            | Some sks \<Rightarrow> if sks \<noteq> [] then fn\<lparr>skills := Some (map clear_max_level sks)\<rparr> else fn)
      else fn)"

text \<open>
  \<^verbatim>\<open>
  if isinstance(fn, dev.Req_UpdateEmployeeInfo):
      payload = {"employee": fn.employee, "changed_by": fn.changed_by or about.current_user}
      if fn.salary is not None:
          payload["salary"] = fn.salary
      for field in ("department", "location", "notes"):
          v = getattr(fn, field, None)
          if v and str(v).strip():
              payload[field] = v
      for field in ("skills", "wills"):
          v = getattr(fn, field, None)
          if v and len(v) > 0:
              payload[field] = v
      fn = dev.Req_UpdateEmployeeInfo.model_construct(**payload)
  \<close>
  The rebuilt request has the attributes of the payload and no other.
\<close>

definition nonblank :: "str option \<Rightarrow> str option" where
  "nonblank v = (case v of None \<Rightarrow> None | Some x \<Rightarrow> if x \<noteq> [] \<and> strip x \<noteq> [] then Some x else None)"

definition nonempty :: "'a list option \<Rightarrow> 'a list option" where
  "nonempty v = (case v of None \<Rightarrow> None | Some xs \<Rightarrow> if xs \<noteq> [] then Some xs else None)"

definition bare :: "req_kind \<Rightarrow> action" where
  "bare k =
     \<lparr> cls = k, limit = Absent, id' = Absent, employee = Absent, project = Absent,
       customer = Absent, query = Absent, outcome = None, message = [], links = [],
       logged_by = None, work_category = None, status = None, billable = None, skills = None,
       wills = None, locations = None, changed_by = None, salary = None, department = None,
       location = None, notes' = None \<rparr>"

definition enrich_update_employee :: "about \<Rightarrow> action \<Rightarrow> action" where
  "enrich_update_employee ab fn =
     (if cls fn = Req_UpdateEmployeeInfo
      then (bare Req_UpdateEmployeeInfo)
             \<lparr> employee := employee fn,
               changed_by := or_else (changed_by fn) (current_user ab),
               salary := salary fn,
               department := nonblank (department fn),
               location := nonblank (location fn),
               notes' := nonblank (notes' fn),
               skills := nonempty (skills fn),
               wills := nonempty (wills fn) \<rparr>
      else fn)"

definition enrich :: "about \<Rightarrow> action \<Rightarrow> action" where
  "enrich ab fn = enrich_update_employee ab (enrich_search_employees (enrich_time_entry ab fn))"

subsection \<open>Premature-completion guard\<close>

text \<open>
  \<^verbatim>\<open>
  if any(w in task_lower for w in ["log", "record"]) and "hour" in task_lower:
      if not any(c[0] == "Req_LogTimeEntry" for c in call_history):
          required = "Req_LogTimeEntry"
  if any(w in task_lower for w in ["raise", "increase"]) and "salary" in task_lower:
      if not any(c[0] == "Req_UpdateEmployeeInfo" for c in call_history):
          required = "Req_UpdateEmployeeInfo"
  if "status" in task_lower and any(w in task_lower for w in ["change", "archive", "pause", "resume"]):
      if not any(c[0] == "Req_UpdateProjectStatus" for c in call_history):
          required = "Req_UpdateProjectStatus"
  \<close>
  The call history keeps the class of each request instead of the name of the class.
\<close>

definition any_in :: "str list \<Rightarrow> str \<Rightarrow> bool" where
  "any_in ws t = list_ex (\<lambda>w. sublist w t) ws"

definition time_logging_task :: "str \<Rightarrow> bool" where
  "time_logging_task task_lower \<longleftrightarrow>
     any_in [S ''log'', S ''record''] task_lower \<and> sublist (S ''hour'') task_lower"

definition salary_raise_task :: "str \<Rightarrow> bool" where
  "salary_raise_task task_lower \<longleftrightarrow>
     any_in [S ''raise'', S ''increase''] task_lower \<and> sublist (S ''salary'') task_lower"

definition status_change_task :: "str \<Rightarrow> bool" where
  "status_change_task task_lower \<longleftrightarrow>
     sublist (S ''status'') task_lower \<and>
     any_in [S ''change'', S ''archive'', S ''pause'', S ''resume''] task_lower"

definition called :: "req_kind \<Rightarrow> (req_kind \<times> str) list \<Rightarrow> bool" where
  "called k history = list_ex (\<lambda>c. fst c = k) history"

definition required_call :: "str \<Rightarrow> (req_kind \<times> str) list \<Rightarrow> req_kind option" where
  "required_call task_lower history =
     (let r1 = (if time_logging_task task_lower \<and> \<not> called Req_LogTimeEntry history
                then Some Req_LogTimeEntry else None);
          r2 = (if salary_raise_task task_lower \<and> \<not> called Req_UpdateEmployeeInfo history
                then Some Req_UpdateEmployeeInfo else r1);
          r3 = (if status_change_task task_lower \<and> \<not> called Req_UpdateProjectStatus history
                then Some Req_UpdateProjectStatus else r2)
      in r3)"

text \<open>
  \<^verbatim>\<open>
  if "status" in task_lower and any(w in task_lower for w in ["change", "archive", "pause", "resume"]):
      status_called = any(c[0] == "Req_UpdateProjectStatus" for c in call_history)
      if not status_called:
          fn.outcome = "denied_security"
          fn.message = "Project not found or you are not authorized to modify it."
  \<close>
\<close>

definition status_rewrite :: "str \<Rightarrow> (req_kind \<times> str) list \<Rightarrow> action \<Rightarrow> action" where
  "status_rewrite task_lower history fn =
     (if status_change_task task_lower \<and> \<not> called Req_UpdateProjectStatus history
      then fn\<lparr> outcome := Some (S ''denied_security''),
               message := S ''Project not found or you are not authorized to modify it.'' \<rparr>
      else fn)"

text \<open>
  Lines 588 to 631 of \<open>run_task\<close>, for a \<open>Req_ProvideAgentResponse\<close>: the state with the
  notes added, and the request to dispatch, or \<open>None\<close> when the loop continues without
  dispatching.
  \<^verbatim>\<open>
  outcome = fn.outcome or "ok_answer"
  if fn.outcome == "ok_not_found":
      fn.outcome = "ok_answer"
  if outcome == "ok_answer" and not system_broken:
      ...
      if required:
          messages.append(BLOCKED)
          block_count += 1
          if block_count >= 3:
              messages.append(CRITICAL ... {memory[-200:]})
          if step < cfg.MAX_STEPS - 5:
              continue
      (status rewrite)
  if outcome == "error_internal" or system_broken:
      fn.links = []
  \<close>
\<close>

definition proposed_outcome :: "action \<Rightarrow> str" where
  "proposed_outcome fn =
     (case outcome fn of None \<Rightarrow> S ''ok_answer''
      | Some x \<Rightarrow> if x \<noteq> [] then x else S ''ok_answer'')"

definition surface_not_found :: "action \<Rightarrow> action" where
  "surface_not_found fn =
     (if outcome fn = Some (S ''ok_not_found'') then fn\<lparr>outcome := Some (S ''ok_answer'')\<rparr>
      else fn)"

definition unlink :: "str \<Rightarrow> loop_state \<Rightarrow> action \<Rightarrow> action" where
  "unlink out s fn = (if out = S ''error_internal'' \<or> system_broken s then fn\<lparr>links := []\<rparr> else fn)"

definition block :: "req_kind \<Rightarrow> loop_state \<Rightarrow> loop_state" where
  "block required s =
     (let s1 = s\<lparr> messages := messages s @ [Msg_blocked required],
                  block_count := block_count s + 1 \<rparr>
      in if block_count s1 \<ge> 3
         then s1\<lparr> messages := messages s1 @
                    [Msg_critical (block_count s1) required (last_n 200 (memory s1))] \<rparr>
         else s1)"

definition final_guard ::
  "unicode \<Rightarrow> config \<Rightarrow> task \<Rightarrow> nat \<Rightarrow> loop_state \<Rightarrow> action \<Rightarrow> loop_state \<times> action option"
where
  "final_guard U cfg tk step s fn =
     (let out = proposed_outcome fn;
          fn1 = surface_not_found fn;
          task_lower = lower U (task_text tk)
      in if out = S ''ok_answer'' \<and> \<not> system_broken s
         then (case required_call task_lower (call_history s) of
                 None \<Rightarrow> (s, Some (unlink out s (status_rewrite task_lower (call_history s) fn1)))
               | Some required \<Rightarrow>
                   if int step < MAX_STEPS cfg - 5 then (block required s, None)
                   else (block required s,
                         Some (unlink out s (status_rewrite task_lower (call_history s) fn1))))
         else (s, Some (unlink out s fn1)))"

section \<open>Loop controller\<close>

text \<open>
  \<^verbatim>\<open>
  def _short(text: str, limit: int = 200) -> str:
      if len(text) <= limit:
          return text
      return text[: limit - 1] + "..."
  \<close>
  The last character is the ellipsis U+2026.
\<close>

definition short :: "str \<Rightarrow> nat \<Rightarrow> str" where
  "short text lim = (if length text \<le> lim then text else take (lim - 1) text @ [8230])"

text \<open>
  Lines 514 to 518: a parsed step resets the failure counter and merges memory and scratch.
\<close>

definition absorb :: "next_step \<Rightarrow> loop_state \<Rightarrow> loop_state" where
  "absorb ns s =
     s\<lparr> llm_fails := 0,
        memory := (if ns_memory ns \<noteq> []
                   then compress_memory (memory s @ S '' | '' @ strip (ns_memory ns))
                   else memory s),
        scratch := (if ns_scratch ns \<noteq> [] then last_n 500 (ns_scratch ns) else scratch s) \<rparr>"

text \<open>Lines 521 to 537: the reasoning call raised.\<close>

definition llm_failed :: "loop_state \<Rightarrow> step_result" where
  "llm_failed s =
     (let s1 = s\<lparr>llm_fails := llm_fails s + 1\<rparr>
      in if llm_fails s1 \<ge> 3
         then Return s1 (respond (S ''System error.'') (S ''error_internal''))
         else Continue (s1\<lparr>messages := messages s1 @ [Msg_valid_json]\<rparr>))"

text \<open>Lines 669 to 690: \<open>api.dispatch(fn)\<close> raised \<open>ApiException\<close>.\<close>

definition api_failed :: "unicode \<Rightarrow> nat \<Rightarrow> action \<Rightarrow> str \<Rightarrow> loop_state \<Rightarrow> step_result" where
  "api_failed U step fn err s =
     (let etype = classify_error U err;
          s1 = s\<lparr>memory := memory s @ S '' | ERR['' @ etype @ S '']: '' @ first_n 60 err\<rparr>
      in if etype = S ''permission''
         then Return s1 (respond (S ''Permission denied.'') (S ''denied_security''))
         else if etype = S ''not_found'' \<and>
                 (cls fn = Req_UpdateProjectStatus \<or> cls fn = Req_UpdateProjectTeam)
         then Return s1 (respond (S ''You are not authorized to modify this project.'')
                           (S ''denied_security''))
         else if etype = S ''system''
         then Return (s1\<lparr>api_fails := api_fails s1 + 1, system_broken := True\<rparr>)
                (respond (S ''System error.'') (S ''error_internal''))
         else Continue (s1\<lparr>messages := messages s1 @ [Msg_tool_error etype err step]\<rparr>))"

text \<open>Lines 692 to 697: \<open>api.dispatch(fn)\<close> raised another exception.\<close>

definition api_faulted :: "nat \<Rightarrow> str \<Rightarrow> loop_state \<Rightarrow> step_result" where
  "api_faulted step err s =
     Continue (s\<lparr> memory := memory s @ S '' | ERR: '' @ first_n 60 err,
                  messages := messages s @ [Msg_tool_fault err step] \<rparr>)"

text \<open>
  Lines 639 to 667: the hints after a successful dispatch. The word class of \<open>\w\<close> and
  \<open>\b\<close> is \<open>isalnum\<close> or the underscore.
  \<^verbatim>\<open>
  emp_match = re.search(r"\bfor\s+(\w+)\b", task_lower)
  \<close>
\<close>

definition word_class :: "unicode \<Rightarrow> nat \<Rightarrow> bool" where
  "word_class U c \<longleftrightarrow> isalnum U c \<or> c = 95"

definition for_someone :: "unicode \<Rightarrow> re" where
  "for_someone U =
     seq [Bnd (word_class U), Lit (S ''for''), spaces1, Grp (Rep (word_class U) 1 None),
          Bnd (word_class U)]"

definition nordic :: "unicode \<Rightarrow> str list \<Rightarrow> bool" where
  "nordic U locs =
     list_ex (\<lambda>l. lower U l \<in> set [S ''danmark'', S ''denmark'', S ''dk'']) locs"

definition mutation :: "req_kind \<Rightarrow> bool" where
  "mutation k \<longleftrightarrow>
     k \<in> set [Req_LogTimeEntry, Req_UpdateEmployeeInfo, Req_UpdateProjectStatus,
               Req_UpdateProjectTeam, Req_UpdateWiki]"

definition hint_projects :: "unicode \<Rightarrow> task \<Rightarrow> action \<Rightarrow> api_response \<Rightarrow> loop_state \<Rightarrow> loop_state" where
  "hint_projects U tk fn res s =
     (case n_projects res of
        None \<Rightarrow> s
      | Some n \<Rightarrow>
          if cls fn = Req_SearchProjects \<and> n > 1
          then (let task_lower = lower U (task_text tk);
                    s1 = (case re_search (for_someone U) task_lower of
                            None \<Rightarrow> s
                          | Some m \<Rightarrow>
                              s\<lparr> messages := messages s @ [Msg_multiple_projects (group1 m)],
                                 scratch := scratch s @ S '' | DISAMBIGUATE: check team for ''
                                              @ [39] @ group1 m @ [39] \<rparr>)
                in if time_logging_task task_lower
                   then s1\<lparr>messages := messages s1 @ [Msg_time_logging_projects n]\<rparr>
                   else s1)
          else s)"

definition hint_customers :: "unicode \<Rightarrow> action \<Rightarrow> api_response \<Rightarrow> loop_state \<Rightarrow> loop_state" where
  "hint_customers U fn res s =
     (if cls fn = Req_SearchCustomers \<and> companies_none res
      then (case locations fn of
              None \<Rightarrow> s
            | Some locs \<Rightarrow>
                if locs \<noteq> [] \<and> nordic U locs
                then s\<lparr>messages := messages s @ [Msg_nordic]\<rparr> else s)
      else s)"

text \<open>The check mark before the class name is U+2713.\<close>

definition note_mutation :: "action \<Rightarrow> loop_state \<Rightarrow> loop_state" where
  "note_mutation fn s =
     (if mutation (cls fn)
      then s\<lparr>memory := compress_memory (memory s @ S '' | '' @ [10003] @ class_name (cls fn))\<rparr>
      else s)"

text \<open>
  Lines 700 to 735: after a dispatch that returned.
  \<^verbatim>\<open>
  call_key = (
      fn.__class__.__name__,
      str(getattr(fn, "query", getattr(fn, "id", getattr(fn, "employee", "")))).strip()[:40],
  )
  \<close>
\<close>

definition key_argument :: "action \<Rightarrow> str" where
  "key_argument fn =
     (let text_of = (\<lambda>a. case a of Val v \<Rightarrow> v | _ \<Rightarrow> S ''None'')
      in if query fn \<noteq> Absent then text_of (query fn)
         else if id' fn \<noteq> Absent then text_of (id' fn)
         else if employee fn \<noteq> Absent then text_of (employee fn)
         else [])"

definition call_key :: "action \<Rightarrow> req_kind \<times> str" where
  "call_key fn = (cls fn, first_n 40 (strip (key_argument fn)))"

definition record_call :: "next_step \<Rightarrow> nat \<Rightarrow> action \<Rightarrow> api_response \<Rightarrow> loop_state \<Rightarrow> step_result" where
  "record_call ns step fn res s =
     (let key = call_key fn;
          history = call_history s @ [key];
          n = count_list history key;
          s1 = s\<lparr>call_history := history\<rparr>;
          s2 = (if n \<ge> 3
                then s1\<lparr> memory := memory s1 @ S '' | LOOP: '' @ class_name (fst key) @ S '' x''
                                     @ str_nat n,
                          messages := messages s1 @ [Msg_loop_warning (class_name (fst key))] \<rparr>
                else s1);
          s3 = s2\<lparr> messages := messages s2 @
                       [Msg_tool_call (ns_think ns) fn step,
                        Msg_tool_result (first_n 2000 (tool_out res)) step] \<rparr>;
          s4 = s3\<lparr>memory := compress_memory (memory s3 @ S '' | '' @ short (tool_out res) 200)\<rparr>
      in if ns_done ns
         then Return s4 \<lparr> r_message = S ''Done.'', r_outcome = Some (S ''ok_answer''),
                          r_links = Links_of_recent_ids 5 \<rparr>
         else Continue s4)"

text \<open>
  Lines 632 to 697: the request is handed to \<open>api.dispatch\<close>. A final response that is
  accepted ends the task with the request as dispatched.
\<close>

definition dispatch ::
  "unicode \<Rightarrow> task \<Rightarrow> next_step \<Rightarrow> api_result \<Rightarrow> nat \<Rightarrow> action \<Rightarrow> loop_state \<Rightarrow> step_result"
where
  "dispatch U tk ns ar step fn s =
     (let s1 = s\<lparr>events := events s @ [Ev_dispatch step fn]\<rparr>
      in case ar of
           Api_exception err \<Rightarrow> api_failed U step fn err s1
         | Api_fault err \<Rightarrow> api_faulted step err s1
         | Api_ok res \<Rightarrow>
             if cls fn = Req_ProvideAgentResponse
             then Return s1 \<lparr> r_message = message fn, r_outcome = outcome fn,
                              r_links = Links (links fn) \<rparr>
             else record_call ns step fn res
                    (note_mutation fn (hint_customers U fn res (hint_projects U tk fn res s1))))"

text \<open>
  Lines 540 to 631: the proposed request is validated and enriched. It is either rejected,
  and the loop continues without a dispatch, or accepted as the request to dispatch.
\<close>

datatype validated = Rejected loop_state | Accepted loop_state action

definition validate ::
  "unicode \<Rightarrow> config \<Rightarrow> task \<Rightarrow> about \<Rightarrow> next_step \<Rightarrow> nat \<Rightarrow> loop_state \<Rightarrow> validated"
where
  "validate U cfg tk ab ns step s =
     (let fn = clamp_limit (ns_function ns)
      in case hallucinated_id U fn of
           Some val \<Rightarrow> Rejected (s\<lparr>messages := messages s @ [Msg_hallucinated val]\<rparr>)
         | None \<Rightarrow>
             let fn1 = enrich ab fn
             in if cls fn1 = Req_ProvideAgentResponse
                then (case final_guard U cfg tk step s fn1 of
                        (s1, None) \<Rightarrow> Rejected s1
                      | (s1, Some fn2) \<Rightarrow> Accepted s1 fn2)
                else Accepted s fn1)"

definition execute ::
  "unicode \<Rightarrow> config \<Rightarrow> task \<Rightarrow> about \<Rightarrow> next_step \<Rightarrow> api_result \<Rightarrow> nat \<Rightarrow> loop_state \<Rightarrow> step_result"
where
  "execute U cfg tk ab ns ar step s =
     (case validate U cfg tk ab ns step s of
        Rejected s1 \<Rightarrow> Continue s1
      | Accepted s1 fn \<Rightarrow> dispatch U tk ns ar step fn s1)"

text \<open>
  Lines 470 to 490: memory is compressed for the context note, and the reasoning engine is
  called.
\<close>

definition before_reasoning :: "nat \<Rightarrow> loop_state \<Rightarrow> loop_state" where
  "before_reasoning step s =
     s\<lparr>memory := compress_memory (memory s), events := events s @ [Ev_reason step]\<rparr>"

text \<open>
  One iteration of \<open>for step in range(cfg.MAX_STEPS)\<close>, given what the reasoning call and
  the dispatch of this step do.
\<close>

definition iteration ::
  "unicode \<Rightarrow> config \<Rightarrow> task \<Rightarrow> about \<Rightarrow> llm_result \<Rightarrow> api_result \<Rightarrow> nat \<Rightarrow> loop_state \<Rightarrow> step_result"
where
  "iteration U cfg tk ab lr ar step s =
     (if api_fails s \<ge> 3
      then Return (s\<lparr>system_broken := True\<rparr>)
             (respond (S ''System unavailable.'') (S ''error_internal''))
      else case lr of
             Llm_error \<Rightarrow> llm_failed (before_reasoning step s)
           | Llm_ok ns \<Rightarrow> execute U cfg tk ab ns ar step (absorb ns (before_reasoning step s)))"

text \<open>Lines 737 to 744: the loop ran out of steps.\<close>

definition exhausted :: "unicode \<Rightarrow> task \<Rightarrow> loop_state \<Rightarrow> response" where
  "exhausted U tk s =
     (let task_lower = lower U (task_text tk)
      in if system_broken s then respond (S ''System error.'') (S ''error_internal'')
         else if any_in [S ''status'', S ''pause'', S ''archive'', S ''resume'', S ''switch'']
                   task_lower
         then respond (S ''Project not found or not authorized.'') (S ''denied_security'')
         else \<lparr> r_message = S ''Could not complete.'', r_outcome = Some (S ''error_internal''),
                r_links = Links_of_recent_ids 3 \<rparr>)"

text \<open>
  The loop, with \<open>n\<close> iterations left, at step \<open>step\<close>. \<open>llm k\<close> and \<open>api k\<close> are what the
  reasoning call and the dispatch of step \<open>k\<close> do, if they are made.
\<close>

fun agent_loop ::
  "unicode \<Rightarrow> config \<Rightarrow> task \<Rightarrow> about \<Rightarrow> (nat \<Rightarrow> llm_result) \<Rightarrow> (nat \<Rightarrow> api_result) \<Rightarrow>
   nat \<Rightarrow> nat \<Rightarrow> loop_state \<Rightarrow> loop_state \<times> response"
where
  "agent_loop U cfg tk ab llm api 0 step s = (s, exhausted U tk s)"
| "agent_loop U cfg tk ab llm api (Suc n) step s =
     (case iteration U cfg tk ab (llm step) (api step) step s of
        Continue s' \<Rightarrow> agent_loop U cfg tk ab llm api n (Suc step) s'
      | Return s' r \<Rightarrow> (s', r))"

text \<open>
  Lines 439 to 460: the state the loop starts in. \<open>build_system_prompt\<close> looks the current
  user up when there is one and the task is not public.
  \<^verbatim>\<open>
  customer_code_match = re.search(r"\b([A-Z]{2,4}-[A-Z0-9]+-[A-Z0-9]+)\b", task.task_text)
  \<close>
\<close>

definition customer_code :: "unicode \<Rightarrow> re" where
  "customer_code U =
     (let upper = (\<lambda>c. 65 \<le> c \<and> c \<le> 90);
          upper_digit = (\<lambda>c. (65 \<le> c \<and> c \<le> 90) \<or> (48 \<le> c \<and> c \<le> 57))
      in seq [Bnd (word_class U),
              Grp (seq [Rep upper 2 (Some 4), Lit (S ''-''), Rep upper_digit 1 None,
                        Lit (S ''-''), Rep upper_digit 1 None]),
              Bnd (word_class U)])"

definition initial_state :: "unicode \<Rightarrow> task \<Rightarrow> about \<Rightarrow> loop_state" where
  "initial_state U tk ab =
     \<lparr> messages = [Msg_system_prompt, Msg_user (task_text tk)] @
                  (case re_search (customer_code U) (task_text tk) of
                     None \<Rightarrow> [] | Some m \<Rightarrow> [Msg_customer_hint (group1 m)]),
       memory = [], scratch = [], api_fails = 0, llm_fails = 0, system_broken = False,
       call_history = [], block_count = 0,
       events = (case current_user ab of
                   None \<Rightarrow> []
                 | Some u \<Rightarrow> if u \<noteq> [] \<and> \<not> is_public ab then [Ev_get_employee u] else []) \<rparr>"

text \<open>
  The state at the head of iteration \<open>k\<close> of the loop, if the loop gets there: iteration
  \<open>k - 1\<close> is within the step budget and ends with \<open>continue\<close>.
\<close>

fun head_state ::
  "unicode \<Rightarrow> config \<Rightarrow> task \<Rightarrow> about \<Rightarrow> (nat \<Rightarrow> llm_result) \<Rightarrow> (nat \<Rightarrow> api_result) \<Rightarrow>
   nat \<Rightarrow> loop_state option"
where
  "head_state U cfg tk ab llm api 0 = Some (initial_state U tk ab)"
| "head_state U cfg tk ab llm api (Suc k) =
     (case head_state U cfg tk ab llm api k of
        None \<Rightarrow> None
      | Some s \<Rightarrow>
          if int k < MAX_STEPS cfg
          then (case iteration U cfg tk ab (llm k) (api k) k s of
                  Continue s' \<Rightarrow> Some s'
                | Return s' r \<Rightarrow> None)
          else None)"

section \<open>The task\<close>

text \<open>
  \<open>run_task\<close>, from the point where \<open>api.who_am_i()\<close> has returned: the pattern guard
  (lines 356 to 436), then the loop. The result is what the task did to the reasoning engine
  and the domain API, and the one response it submitted. The branding suffix starts with the
  dash U+2014. Logging (\<open>trace.log\<close>, \<open>core.log_llm\<close>) is left out.
\<close>

definition is_date_query :: "str \<Rightarrow> bool" where
  "is_date_query task_lower =
     any_in [S ''date'', S ''today'', S ''current date'', S ''what day'', S ''what time'']
       task_lower"

definition date_shortcut :: "str \<Rightarrow> bool" where
  "date_shortcut task_lower =
     any_in [S ''date'', S ''today'', S ''current date'', S ''what day''] task_lower"

definition branding :: str where
  "branding = S '' '' @ [8212] @ S '' AI Excellence Group INTERNATIONAL''"

definition truthy :: "str option \<Rightarrow> bool" where
  "truthy v = (case v of None \<Rightarrow> False | Some x \<Rightarrow> x \<noteq> [])"

definition run_task ::
  "unicode \<Rightarrow> config \<Rightarrow> (nat \<Rightarrow> llm_result) \<Rightarrow> (nat \<Rightarrow> api_result) \<Rightarrow> task \<Rightarrow> about \<Rightarrow>
   event list \<times> response"
where
  "run_task U cfg llm api tk ab =
     (let task_lower = lower U (task_text tk);
          deny_msg = match_pattern U (task_text tk) DENY_PATTERNS;
          unsup_msg = match_pattern U (task_text tk) UNSUPPORTED_PATTERNS
      in if is_public ab \<and> \<not> is_date_query task_lower
         then ([], respond (S ''Access denied.'') (S ''denied_security''))
         else if is_public ab \<and> date_shortcut task_lower
         then ([], respond (today ab @ branding) (S ''ok_answer''))
         else if truthy deny_msg
         then ([], respond (the deny_msg) (S ''denied_security''))
         else if truthy unsup_msg
         then ([], respond (the unsup_msg) (S ''none_unsupported''))
         else if list_ex (\<lambda>p. matches p task_lower) VAGUE_PATTERNS
         then ([], respond (S ''Could you clarify which project you'' @ [39] @ S ''re referring to?'')
                     (S ''none_clarification_needed''))
         else (case agent_loop U cfg tk ab llm api (nat (MAX_STEPS cfg)) 0
                      (initial_state U tk ab) of
                 (s, r) \<Rightarrow> (events s, r)))"

section \<open>Properties of the context compressor\<close>

text \<open>
  Two notions for the proofs: a string that \<open>strip\<close> leaves alone and is not empty, and a
  fragment as the compressor keeps it.
\<close>

definition stripped :: "str \<Rightarrow> bool" where
  "stripped l \<longleftrightarrow> l \<noteq> [] \<and> \<not> isspace (hd l) \<and> \<not> isspace (last l)"

definition kept :: "str \<Rightarrow> bool" where
  "kept l \<longleftrightarrow> stripped l \<and> 124 \<notin> set l \<and> \<not> sublist (S ''ERR'') l \<and> is_important l"

lemma split_not_Nil [simp]: "split sep s \<noteq> []"
  by (induction s) (auto split: list.splits)

lemma split_no_sep: "sep \<notin> set x \<Longrightarrow> split sep x = [x]"
  by (induction x) auto

lemma split_append_sep: "sep \<notin> set x \<Longrightarrow> split sep (x @ sep # r) = x # split sep r"
  by (induction x) auto

lemma split_fragment_no_sep: "l \<in> set (split sep s) \<Longrightarrow> sep \<notin> set l"
  by (induction s arbitrary: l) (auto split: if_splits list.splits)


lemma dropWhile_hd: "dropWhile P xs \<noteq> [] \<Longrightarrow> \<not> P (hd (dropWhile P xs))"
  by (metis hd_dropWhile)

lemma dropWhile_last: "dropWhile P xs \<noteq> [] \<Longrightarrow> last (dropWhile P xs) = last xs"
  by (induction xs) (auto split: if_splits)

lemma strip_stripped: "strip s \<noteq> [] \<Longrightarrow> stripped (strip s)"
proof -
  assume ne: "strip s \<noteq> []"
  let ?a = "dropWhile isspace s"
  let ?b = "dropWhile isspace (rev ?a)"
  from ne have b: "?b \<noteq> []" by (simp add: strip_def)
  have a: "?a \<noteq> []"
  proof
    assume e: "?a = []"
    show False using b unfolding e by simp
  qed
  have "\<not> isspace (hd ?b)" using b by (rule dropWhile_hd)
  then have l: "\<not> isspace (last (strip s))" using b by (simp add: strip_def last_rev)
  have "last ?b = last (rev ?a)" using b by (rule dropWhile_last)
  also have "\<dots> = hd ?a" using a by (simp add: last_rev)
  finally have "hd (strip s) = hd ?a" using b by (simp add: strip_def hd_rev)
  moreover have "\<not> isspace (hd ?a)" using a by (rule dropWhile_hd)
  ultimately show ?thesis using ne l by (simp add: stripped_def)
qed

lemma strip_pad:
  assumes "stripped l" "\<forall>c\<in>set a. isspace c" "\<forall>c\<in>set b. isspace c"
  shows "strip (a @ l @ b) = l"
proof -
  from assms(1) obtain x xs where l: "l = x # xs" and x: "\<not> isspace x"
    by (cases l) (auto simp: stripped_def)
  from assms(1) obtain y ys where r: "rev l = y # ys" and y: "\<not> isspace y"
    by (cases "rev l") (auto simp: stripped_def last_rev hd_rev)
  have "dropWhile isspace (a @ l @ b) = l @ b"
    using assms(2) x by (simp add: l dropWhile_append)
  moreover have "dropWhile isspace (rev b @ rev l) = rev l"
    using assms(3) y by (simp add: r dropWhile_append)
  ultimately show ?thesis by (simp add: strip_def)
qed

lemma sublist_strip: "sublist (strip s) s"
proof -
  have "sublist (rev (strip s)) (rev s)"
    unfolding strip_def rev_rev_ident
    by (meson sublist_dropWhile sublist_order.order.trans sublist_rev)
  then show ?thesis by simp
qed

lemma sublist_Cons_fresh: "c \<notin> set p \<Longrightarrow> p \<noteq> [] \<Longrightarrow> sublist p (c # l) = sublist p l"
  by (cases p) (auto simp: sublist_Cons_right)

lemma sublist_snoc_fresh: "c \<notin> set p \<Longrightarrow> p \<noteq> [] \<Longrightarrow> sublist p (l @ [c]) = sublist p l"
  using sublist_Cons_fresh [of c "rev p" "rev l"] by (simp add: sublist_rev_left)


lemma ERR_code: "S ''ERR'' = [69, 82, 82]"
  by (simp add: S_def)

lemma sep_code: "S '' | '' = [32, 124, 32]"
  by (simp add: S_def)

lemma ERR_pad:
  assumes "\<not> sublist (S ''ERR'') l" "a = [] \<or> a = [32]" "b = [] \<or> b = [32]"
  shows "\<not> sublist (S ''ERR'') (a @ l @ b)"
proof -
  have f: "(32::nat) \<notin> set (S ''ERR'')" "S ''ERR'' \<noteq> []"
    by (simp_all add: ERR_code)
  have 1: "\<not> sublist (S ''ERR'') (l @ b)"
  proof (cases "b = []")
    case True
    then show ?thesis using assms(1) by simp
  next
    case False
    then have "b = [32]" using assms(3) by simp
    then show ?thesis using assms(1) sublist_snoc_fresh [OF f, of l] by simp
  qed
  show ?thesis
  proof (cases "a = []")
    case True
    then show ?thesis using 1 by simp
  next
    case False
    then have "a = [32]" using assms(2) by simp
    then show ?thesis using 1 sublist_Cons_fresh [OF f, of "l @ b"] by simp
  qed
qed

lemma kept_pad:
  assumes "kept l" "a = [] \<or> a = [32]" "b = [] \<or> b = [32]"
  shows "strip (a @ l @ b) = l" "\<not> sublist (S ''ERR'') (a @ l @ b)" "124 \<notin> set (a @ l @ b)"
proof -
  have "isspace 32" by (simp add: isspace_def)
  then have sp: "\<forall>c\<in>set a. isspace c" "\<forall>c\<in>set b. isspace c"
    using assms(2,3) by auto
  have "stripped l" using assms(1) by (simp add: kept_def)
  then show "strip (a @ l @ b) = l" using sp by (rule strip_pad)
  have "\<not> sublist (S ''ERR'') l" using assms(1) by (simp add: kept_def)
  then show "\<not> sublist (S ''ERR'') (a @ l @ b)"
    using assms(2,3) by (rule ERR_pad)
  have "124 \<notin> set l" using assms(1) by (simp add: kept_def)
  then show "124 \<notin> set (a @ l @ b)" using assms(2,3) by auto
qed

lemma lines_of_join:
  assumes "sep = [32, 124, 32]" "\<forall>l\<in>set ls. kept l" "ls \<noteq> []" "a = [] \<or> a = [32]"
  shows "map strip (filter (\<lambda>l. strip l \<noteq> [] \<and> \<not> sublist (S ''ERR'') l)
           (split 124 (a @ join sep ls))) = ls"
  using assms
proof (induction sep ls arbitrary: a rule: join.induct)
  case (1 sep)
  then show ?case by simp
next
  case (2 sep x)
  then have k: "kept x" by simp
  have ne: "x \<noteq> []" using k by (simp add: kept_def stripped_def)
  show ?case
    using kept_pad [OF k "2.prems"(4), of "[]"] ne
    by (simp add: split_no_sep)
next
  case (3 sep x y ys)
  then have k: "kept x" by simp
  have ne: "x \<noteq> []" using k by (simp add: kept_def stripped_def)
  have sp: "split 124 (a @ join sep (x # y # ys))
            = (a @ x @ [32]) # split 124 ([32] @ join sep (y # ys))"
    using kept_pad(3) [OF k "3.prems"(4), of "[32]"]
      split_append_sep [of 124 "a @ x @ [32]" "[32] @ join sep (y # ys)"]
    by (simp add: "3.prems"(1))
  have ih: "map strip (filter (\<lambda>l. strip l \<noteq> [] \<and> \<not> sublist (S ''ERR'') l)
           (split 124 ([32] @ join sep (y # ys)))) = y # ys"
    using "3.IH" [of "[32]"] "3.prems" by (simp del: split.simps)
  show ?case
    unfolding sp using kept_pad(1,2) [OF k "3.prems"(4), of "[32]"] ne ih
    by (simp del: split.simps)
qed

lemma last_n_all: "length xs \<le> n \<Longrightarrow> last_n n xs = xs"
  by (simp add: last_n_def)

lemma set_last_n: "set (last_n n xs) \<subseteq> set xs"
  by (simp add: last_n_def set_drop_subset)

lemma length_last_n: "length (last_n n xs) \<le> n"
  by (simp add: last_n_def)

lemma fragments_of_join:
  assumes "\<forall>l\<in>set ls. kept l" "length ls \<le> 12"
  shows "memory_fragments (join (S '' | '') ls) = ls"
proof (cases "ls = []")
  case True
  then show ?thesis by (simp add: memory_fragments_def strip_def last_n_def)
next
  case False
  have imp: "filter is_important ls = ls"
    using assms(1) by (simp add: kept_def)
  show ?thesis
    using lines_of_join [OF sep_code assms(1) False, of "[]"] assms(2) imp
    by (simp add: memory_fragments_def last_n_all)
qed

lemma memory_fragments_kept:
  assumes "l \<in> set (memory_fragments mem)"
  shows "kept l"
proof -
  let ?lines = "map strip (filter (\<lambda>l. strip l \<noteq> [] \<and> \<not> sublist (S ''ERR'') l) (split 124 mem))"
  have "l \<in> set (last_n 12 (filter is_important (last_n 20 ?lines)))"
    using assms by (simp add: memory_fragments_def Let_def)
  then have "l \<in> set (filter is_important (last_n 20 ?lines))"
    by (rule subsetD [OF set_last_n])
  then have imp: "is_important l" and "l \<in> set (last_n 20 ?lines)"
    unfolding set_filter by simp_all
  from this(2) have "l \<in> set ?lines"
    by (rule subsetD [OF set_last_n])
  then obtain x where "l = strip x"
    "x \<in> set (filter (\<lambda>l. strip l \<noteq> [] \<and> \<not> sublist (S ''ERR'') l) (split 124 mem))"
    unfolding set_map by (rule imageE)
  then have x: "l = strip x" "x \<in> set (split 124 mem)" "strip x \<noteq> []"
      "\<not> sublist (S ''ERR'') x"
    by simp_all
  have "stripped l" using x(1,3) by (simp add: strip_stripped)
  moreover have "set l \<subseteq> set x"
    unfolding x(1) by (rule set_mono_sublist [OF sublist_strip])
  then have "124 \<notin> set l"
    using split_fragment_no_sep [OF x(2)] by blast
  moreover have "\<not> sublist (S ''ERR'') l"
  proof
    assume "sublist (S ''ERR'') l"
    then have "sublist (S ''ERR'') x"
      unfolding x(1) using sublist_strip [of x] by (rule sublist_order.order.trans)
    then show False using x(4) by simp
  qed
  ultimately show "kept l" using imp by (simp add: kept_def)
qed

lemma length_memory_fragments: "length (memory_fragments mem) \<le> 12"
  by (simp add: memory_fragments_def Let_def length_last_n)

text \<open>
  Claim C8. Compressing memory is idempotent: for every string \<open>m\<close>, compressing the
  compressed memory again gives the compressed memory.
\<close>

theorem compress_memory_idempotent:
  "compress_memory (compress_memory m) = compress_memory m"
  unfolding compress_memory_def
  using fragments_of_join [of "memory_fragments m"] memory_fragments_kept [of _ m]
    length_memory_fragments [of m]
  by simp

end
